theory Spec2Isabelle
  imports Main "HOL-Library.Product_Lexorder" "HOL-Library.Monad_Syntax"
begin

section \<open>Timestamps\<close>

text \<open>
  The script handles timestamps with Python's \<open>datetime\<close>. Every value the script holds has
  gone through \<open>astimezone(timezone.utc)\<close>, so a value is modelled by its UTC fields
  (year, month, day, hour, minute, second, microsecond). Comparing two aware datetimes compares
  instants, which on UTC fields is the lexicographic order of the tuple.
\<close>

type_synonym datetime = "nat \<times> nat \<times> nat \<times> nat \<times> nat \<times> nat \<times> nat"

definition decimal_digits :: string where
  "decimal_digits = ''0123456789''"

definition is_digit :: "char \<Rightarrow> bool" where
  "is_digit c = (c \<in> set decimal_digits)"

text \<open>The value of a digit is its position among the ten digits, and back.\<close>

definition digit_val :: "char \<Rightarrow> nat" where
  "digit_val c = length (takeWhile (\<lambda>x. x \<noteq> c) decimal_digits)"

definition digit_char :: "nat \<Rightarrow> char" where
  "digit_char d = decimal_digits ! d"

text \<open>Reading a fixed number of decimal digits from the front of a string.\<close>

fun num2 :: "string \<Rightarrow> (nat \<times> string) option" where
  "num2 (a # b # rest) =
     (if is_digit a \<and> is_digit b then Some (10 * digit_val a + digit_val b, rest) else None)"
| "num2 _ = None"

fun num4 :: "string \<Rightarrow> (nat \<times> string) option" where
  "num4 (a # b # c # d # rest) =
     (if is_digit a \<and> is_digit b \<and> is_digit c \<and> is_digit d
      then Some (10 * (10 * (10 * digit_val a + digit_val b) + digit_val c) + digit_val d, rest)
      else None)"
| "num4 _ = None"

fun num6 :: "string \<Rightarrow> (nat \<times> string) option" where
  "num6 s = do {
     (a, r1) \<leftarrow> num2 s;
     (b, r2) \<leftarrow> num2 r1;
     (c, r3) \<leftarrow> num2 r2;
     Some (10000 * a + 100 * b + c, r3)
   }"

fun expect :: "char \<Rightarrow> string \<Rightarrow> string option" where
  "expect c [] = None"
| "expect c (x # xs) = (if x = c then Some xs else None)"

definition is_leap :: "nat \<Rightarrow> bool" where
  "is_leap y = (y mod 4 = 0 \<and> (y mod 100 \<noteq> 0 \<or> y mod 400 = 0))"

definition days_in_month :: "nat \<Rightarrow> nat \<Rightarrow> nat" where
  "days_in_month y m =
     (if m = 2 then (if is_leap y then 29 else 28)
      else if m = 4 \<or> m = 6 \<or> m = 9 \<or> m = 11 then 30 else 31)"

text \<open>The field ranges \<open>datetime\<close> accepts (\<open>MINYEAR = 1\<close>, \<open>MAXYEAR = 9999\<close>).\<close>

definition valid_fields :: "nat \<Rightarrow> nat \<Rightarrow> nat \<Rightarrow> nat \<Rightarrow> nat \<Rightarrow> nat \<Rightarrow> bool" where
  "valid_fields y m d h mi s =
     (1 \<le> y \<and> y \<le> 9999 \<and> 1 \<le> m \<and> m \<le> 12 \<and> 1 \<le> d \<and> d \<le> days_in_month y m
      \<and> h < 24 \<and> mi < 60 \<and> s < 60)"

text \<open>
  \<open>datetime.fromisoformat(ts).astimezone(timezone.utc)\<close> is the standard library's, not the
  script's: the script's functions below take it as the parameter \<open>fromiso\<close>, with \<open>None\<close>
  for the library's \<open>ValueError\<close>, and what is proved of them holds whatever the library
  accepts. \<open>fromisoformat_utc\<close> is that parser, written from the library's documentation, on
  one shape only: \<open>YYYY-MM-DDTHH:MM:SS\<close>, an optional six-digit fraction, and the offset
  \<open>+00:00\<close> (what the script puts in place of the final \<open>Z\<close>). It stands in for the
  library in the round trip of such strings and in the example inputs, whose timestamps all
  have this shape; it says nothing of the other strings the library parses (another offset or
  precision, no seconds, another separator), which it turns down.
\<close>

fun read_fraction :: "string \<Rightarrow> (nat \<times> string) option" where
  "read_fraction (c # cs) = (if c = CHR ''.'' then num6 cs else Some (0, c # cs))"
| "read_fraction [] = Some (0, [])"

definition fromisoformat_utc :: "string \<Rightarrow> datetime option" where
  "fromisoformat_utc ts = do {
     (y, r1) \<leftarrow> num4 ts;
     r2 \<leftarrow> expect (CHR ''-'') r1;
     (m, r3) \<leftarrow> num2 r2;
     r4 \<leftarrow> expect (CHR ''-'') r3;
     (d, r5) \<leftarrow> num2 r4;
     r6 \<leftarrow> expect (CHR ''T'') r5;
     (h, r7) \<leftarrow> num2 r6;
     r8 \<leftarrow> expect (CHR '':'') r7;
     (mi, r9) \<leftarrow> num2 r8;
     r10 \<leftarrow> expect (CHR '':'') r9;
     (s, r11) \<leftarrow> num2 r10;
     (us, r12) \<leftarrow> read_fraction r11;
     if r12 = ''+00:00'' \<and> valid_fields y m d h mi s
     then Some (y, m, d, h, mi, s, us) else None
   }"

text \<open>\<open>parse_spotify_ts\<close>: \<open>not ts\<close> holds for \<open>None\<close> and for the empty string.\<close>

definition endswith_Z :: "string \<Rightarrow> bool" where
  "endswith_Z ts = (ts \<noteq> [] \<and> last ts = CHR ''Z'')"

definition parse_spotify_ts :: "(string \<Rightarrow> datetime option) \<Rightarrow> string option \<Rightarrow> datetime option" where
  "parse_spotify_ts fromiso ts =
     (case ts of
        None \<Rightarrow> None
      | Some t \<Rightarrow>
          if t = [] then None
          else fromiso (if endswith_Z t then butlast t @ ''+00:00'' else t))"

text \<open>\<open>isoformat()\<close> of an aware UTC datetime, and \<open>str.replace\<close> for a non-empty pattern.\<close>

definition fmt2 :: "nat \<Rightarrow> string" where
  "fmt2 n = [digit_char (n div 10 mod 10), digit_char (n mod 10)]"

definition fmt4 :: "nat \<Rightarrow> string" where
  "fmt4 n = [digit_char (n div 1000 mod 10), digit_char (n div 100 mod 10),
             digit_char (n div 10 mod 10), digit_char (n mod 10)]"

definition fmt6 :: "nat \<Rightarrow> string" where
  "fmt6 n = fmt2 (n div 10000) @ fmt2 (n div 100 mod 100) @ fmt2 (n mod 100)"

fun isoformat :: "datetime \<Rightarrow> string" where
  "isoformat (y, m, d, h, mi, s, us) =
     fmt4 y @ ''-'' @ fmt2 m @ ''-'' @ fmt2 d @ ''T'' @ fmt2 h @ '':'' @ fmt2 mi @ '':'' @ fmt2 s
     @ (if us = 0 then [] else ''.'' @ fmt6 us) @ ''+00:00''"

fun replace_microsecond :: "nat \<Rightarrow> datetime \<Rightarrow> datetime" where
  "replace_microsecond v (y, m, d, h, mi, s, us) = (y, m, d, h, mi, s, v)"

fun str_replace :: "char \<Rightarrow> string \<Rightarrow> string \<Rightarrow> string \<Rightarrow> string" where
  "str_replace p ps new [] = []"
| "str_replace p ps new (c # cs) =
     (if c = p \<and> take (length ps) cs = ps
      then new @ str_replace p ps new (drop (length ps) cs)
      else c # str_replace p ps new cs)"

definition format_spotify_ts :: "datetime option \<Rightarrow> string option" where
  "format_spotify_ts dt =
     (case dt of
        None \<Rightarrow> None
      | Some t \<Rightarrow> Some (str_replace (CHR ''+'') ''00:00'' ''Z'' (isoformat (replace_microsecond 0 t))))"

text \<open>
  A \<open>Z\<close>-suffixed, second-precision ISO-8601 UTC timestamp, \<open>YYYY-MM-DDTHH:MM:SSZ\<close>, stated on
  the characters of the string and independently of the parser: twenty characters, digits and
  separators in their places, and fields that name a calendar instant.
\<close>

definition digits_value :: "string \<Rightarrow> nat" where
  "digits_value ds = foldl (\<lambda>a c. 10 * a + digit_val c) 0 ds"

definition is_spotify_ts :: "string \<Rightarrow> bool" where
  "is_spotify_ts s =
     (length s = 20
      \<and> list_all is_digit (take 4 s) \<and> s ! 4 = CHR ''-''
      \<and> list_all is_digit (take 2 (drop 5 s)) \<and> s ! 7 = CHR ''-''
      \<and> list_all is_digit (take 2 (drop 8 s)) \<and> s ! 10 = CHR ''T''
      \<and> list_all is_digit (take 2 (drop 11 s)) \<and> s ! 13 = CHR '':''
      \<and> list_all is_digit (take 2 (drop 14 s)) \<and> s ! 16 = CHR '':''
      \<and> list_all is_digit (take 2 (drop 17 s)) \<and> s ! 19 = CHR ''Z''
      \<and> valid_fields (digits_value (take 4 s)) (digits_value (take 2 (drop 5 s)))
           (digits_value (take 2 (drop 8 s))) (digits_value (take 2 (drop 11 s)))
           (digits_value (take 2 (drop 14 s))) (digits_value (take 2 (drop 17 s))))"

section \<open>Errors and decoded JSON values\<close>

text \<open>
  The exceptions the script names, and \<open>OtherError\<close> for every other subclass of
  \<open>Exception\<close> a library call may raise.
\<close>

datatype error =
    RuntimeError
  | SpotifyOauthError
  | UnauthorizedError
  | TimedOutError
  | AttributeError
  | OtherError string

text \<open>What \<open>json.load\<close> returns (numbers as integers).\<close>

datatype pyval =
    PNone
  | PBool bool
  | PInt int
  | PStr string
  | PList "pyval list"
  | PDict "(string \<times> pyval) list"

text \<open>
  The state file as \<open>load_state\<close> meets it: not there, there but \<open>open\<close> or
  \<open>json.load\<close> raises, or there with a decoded JSON value.
\<close>

datatype state_file = Missing | Unreadable | Content pyval

section \<open>Persisted state\<close>

text \<open>
  The state dictionary with its two keys. Keys other than these two, which the script carries
  along untouched, are left out.
\<close>

record sync_state =
  processed_spotify_ids :: "string list"
  last_spotify_added_at :: pyval

definition STATE_DEFAULT :: sync_state where
  "STATE_DEFAULT = \<lparr>processed_spotify_ids = [], last_spotify_added_at = PNone\<rparr>"

text \<open>
  Python's built-in \<open>str\<close>: a string is itself; how any other value is rendered is the
  parameter \<open>render\<close>.
\<close>

definition py_str :: "(pyval \<Rightarrow> string) \<Rightarrow> pyval \<Rightarrow> string" where
  "py_str render v = (case v of PStr s \<Rightarrow> s | _ \<Rightarrow> render v)"

text \<open>
  \<open>load_state\<close>. A decoded value that is not a dictionary has no \<open>setdefault\<close>: the call
  raises \<open>AttributeError\<close> outside the \<open>try\<close> block.
\<close>

fun load_state :: "(pyval \<Rightarrow> string) \<Rightarrow> state_file \<Rightarrow> error + sync_state" where
  "load_state render Missing = Inr STATE_DEFAULT"
| "load_state render Unreadable = Inr STATE_DEFAULT"
| "load_state render (Content (PDict kvs)) =
     Inr \<lparr>processed_spotify_ids =
            (case map_of kvs ''processed_spotify_ids'' of
               Some (PList xs) \<Rightarrow> map (py_str render) xs
             | _ \<Rightarrow> []),
          last_spotify_added_at =
            (case map_of kvs ''last_spotify_added_at'' of
               None \<Rightarrow> PNone
             | Some v \<Rightarrow> v)\<rparr>"
| "load_state render (Content _) = Inl AttributeError"

text \<open>\<open>json.dump\<close> of the state dictionary, as \<open>json.load\<close> reads it back.\<close>

definition dump :: "sync_state \<Rightarrow> pyval" where
  "dump st = PDict [(''processed_spotify_ids'', PList (map PStr (processed_spotify_ids st))),
                    (''last_spotify_added_at'', last_spotify_added_at st)]"

section \<open>The two catalogs and the world the script acts on\<close>

text \<open>An entry of the source listing, with the keys the script reads; \<open>None\<close> is a missing key.\<close>

record sp_track =
  t_id :: "string option"
  t_name :: "string option"
  t_artists :: "string option list"
  t_album_name :: "string option"
  t_duration_ms :: "int option"

record sp_item =
  track :: "sp_track option"
  added_at :: "string option"

text \<open>The dictionary \<open>fetch_spotify_liked_tracks\<close> builds for a new track.\<close>

record new_track =
  nt_id :: string
  nt_name :: string
  nt_artists :: "string list"
  nt_album_name :: string
  nt_duration_ms :: int
  nt_added_at :: "string option"

text \<open>An entry of the target's like listing, and a track found by the target's search.\<close>

record liked_item =
  l_id :: "string option"
  l_album_id :: "string option"

record ya_track =
  y_id :: "string option"
  y_albums :: "string option list"
  y_title :: string
  y_artists :: "string list"

text \<open>
  The value \<open>ym.search\<close> returns: a falsy result, a result whose \<open>tracks\<close> is missing or
  falsy, one whose \<open>tracks\<close> has no usable \<open>results\<close> attribute, or a list of results.
\<close>

datatype search_result =
    ResultNone
  | TracksNone
  | ResultsMalformed
  | Results "ya_track list"

text \<open>
  Everything outside the script: the environment variables, what the two client libraries
  answer, how Python renders a value that is not a string, and the standard library's
  timestamp parser. The source library is a finite newest-first list served in
  pages. The \<open>k\<close>-th call of \<open>search\<close> and of \<open>users_likes_tracks_add\<close> may answer
  differently from the one before, so both take the number of calls made so far.
\<close>

record env =
  SPOTIFY_CLIENT_ID :: "string option"
  SPOTIFY_CLIENT_SECRET :: "string option"
  YANDEX_MUSIC_TOKEN :: "string option"
  spotify_oauth :: "error option"
  yandex_client_init :: "error option"
  saved_tracks :: "sp_item list"
  users_likes_tracks :: "error + liked_item list"
  search :: "nat \<Rightarrow> string \<Rightarrow> error + search_result"
  users_likes_tracks_add :: "nat \<Rightarrow> string \<Rightarrow> error option"
  render :: "pyval \<Rightarrow> string"
  fromisoformat :: "string \<Rightarrow> datetime option"

text \<open>
  What the script changes: the state file, the likes it has added to the target catalog (in
  order), and counters of the calls it has made and the seconds it has slept.
\<close>

record world =
  STATE_FILE :: state_file
  target_likes :: "string list"
  searches :: nat
  like_calls :: nat
  slept :: nat
  saves :: nat

definition truthy :: "string option \<Rightarrow> bool" where
  "truthy v = (case v of None \<Rightarrow> False | Some s \<Rightarrow> s \<noteq> [])"

definition init_spotify_client :: "env \<Rightarrow> error option" where
  "init_spotify_client E =
     (if \<not> truthy (SPOTIFY_CLIENT_ID E) \<or> \<not> truthy (SPOTIFY_CLIENT_SECRET E)
      then Some RuntimeError
      else spotify_oauth E)"

definition init_yandex_client :: "env \<Rightarrow> error option" where
  "init_yandex_client E =
     (if \<not> truthy (YANDEX_MUSIC_TOKEN E) then Some RuntimeError else yandex_client_init E)"

definition save_state :: "sync_state \<Rightarrow> world \<Rightarrow> world" where
  "save_state st w = w\<lparr>STATE_FILE := Content (dump st), saves := saves w + 1\<rparr>"

section \<open>Target Snapshot\<close>

definition like_key :: "string \<Rightarrow> string \<Rightarrow> string" where
  "like_key track_id album_id = track_id @ '':'' @ album_id"

fun collect_likes :: "liked_item list \<Rightarrow> string set \<Rightarrow> string set" where
  "collect_likes [] result = result"
| "collect_likes (item # likes) result =
     (if truthy (l_id item) \<and> truthy (l_album_id item)
      then collect_likes likes (insert (like_key (the (l_id item)) (the (l_album_id item))) result)
      else collect_likes likes result)"

definition fetch_yandex_liked_ids :: "error + liked_item list \<Rightarrow> string set" where
  "fetch_yandex_liked_ids listing =
     (case listing of Inl e \<Rightarrow> {} | Inr likes \<Rightarrow> collect_likes likes {})"

section \<open>Change Detector\<close>

definition current_user_saved_tracks :: "sp_item list \<Rightarrow> nat \<Rightarrow> nat \<Rightarrow> sp_item list" where
  "current_user_saved_tracks lib limit offset = take limit (drop offset lib)"

definition or_empty :: "string option \<Rightarrow> string" where
  "or_empty v = (case v of None \<Rightarrow> [] | Some s \<Rightarrow> s)"

text \<open>
  The two \<open>continue\<close> guards and the dictionary built for an item that passes them:
  \<open>None\<close> for an item without track payload or without a non-empty id.
\<close>

definition new_track_of :: "sp_item \<Rightarrow> new_track option" where
  "new_track_of item =
     (case track item of
        None \<Rightarrow> None
      | Some tr \<Rightarrow>
          if \<not> truthy (t_id tr) then None
          else Some \<lparr>nt_id = the (t_id tr),
                     nt_name = or_empty (t_name tr),
                     nt_artists = map or_empty (t_artists tr),
                     nt_album_name = or_empty (t_album_name tr),
                     nt_duration_ms = (case t_duration_ms tr of None \<Rightarrow> 0 | Some d \<Rightarrow> d),
                     nt_added_at = added_at item\<rparr>)"

text \<open>\<open>since_dt and added_dt and added_dt <= since_dt\<close>.\<close>

definition at_or_below ::
  "(string \<Rightarrow> datetime option) \<Rightarrow> datetime option \<Rightarrow> sp_item \<Rightarrow> bool" where
  "at_or_below fromiso since_dt item =
     (case since_dt of
        None \<Rightarrow> False
      | Some s \<Rightarrow> (case parse_spotify_ts fromiso (added_at item) of None \<Rightarrow> False | Some a \<Rightarrow> a \<le> s))"

text \<open>The \<open>for item in items\<close> loop: the grown buffer and the \<open>stop\<close> flag.\<close>

fun scan_page ::
  "(string \<Rightarrow> datetime option) \<Rightarrow> datetime option \<Rightarrow> sp_item list \<Rightarrow> new_track list
     \<Rightarrow> new_track list \<times> bool" where
  "scan_page fromiso since_dt [] new_tracks = (new_tracks, False)"
| "scan_page fromiso since_dt (item # items) new_tracks =
     (case new_track_of item of
        None \<Rightarrow> scan_page fromiso since_dt items new_tracks
      | Some t \<Rightarrow>
          if at_or_below fromiso since_dt item then (new_tracks, True)
          else scan_page fromiso since_dt items (new_tracks @ [t]))"

text \<open>
  The \<open>while True\<close> loop. Beside the buffer it returns the offsets of the pages it asked for.
\<close>

function fetch_loop ::
  "(string \<Rightarrow> datetime option) \<Rightarrow> sp_item list \<Rightarrow> datetime option \<Rightarrow> nat \<Rightarrow> nat \<Rightarrow> new_track list \<Rightarrow> nat list
     \<Rightarrow> new_track list \<times> nat list" where
  "fetch_loop fromiso lib since_dt page_limit offset new_tracks asked =
     (let items = current_user_saved_tracks lib page_limit offset;
          asked' = asked @ [offset]
      in if items = [] then (new_tracks, asked')
         else case scan_page fromiso since_dt items new_tracks of
           (new_tracks', stop) \<Rightarrow>
             if stop then (new_tracks', asked')
             else if length items < page_limit then (new_tracks', asked')
             else fetch_loop fromiso lib since_dt page_limit (offset + length items) new_tracks' asked')"
  by pat_completeness auto
termination
proof (relation "measure (\<lambda>(fromiso, lib, since_dt, page_limit, offset, new_tracks, asked). length lib - offset)")
  show "wf (measure (\<lambda>(fromiso, lib, since_dt, page_limit, offset, new_tracks, asked). length lib - offset))"
    by simp
next
  fix fromiso :: "string \<Rightarrow> datetime option" and lib :: "sp_item list" and since_dt :: "datetime option" and page_limit offset :: nat
    and new_tracks :: "new_track list" and asked :: "nat list" and items asked' x y z
  assume "items = current_user_saved_tracks lib page_limit offset" and "items \<noteq> []"
  then have "offset < length lib" and "length items \<noteq> 0"
    by (auto simp: current_user_saved_tracks_def)
  then have "length lib - (offset + length items) < length lib - offset"
    by arith
  then show "((fromiso, lib, since_dt, page_limit, offset + length items, y, asked'),
              (fromiso, lib, since_dt, page_limit, offset, new_tracks, asked))
             \<in> measure (\<lambda>(fromiso, lib, since_dt, page_limit, offset, new_tracks, asked). length lib - offset)"
    by simp
qed

definition fetch_spotify_liked_tracks ::
  "(string \<Rightarrow> datetime option) \<Rightarrow> sp_item list \<Rightarrow> string option \<Rightarrow> nat
     \<Rightarrow> new_track list \<times> nat list" where
  "fetch_spotify_liked_tracks fromiso lib last_added_at page_limit =
     (let since_dt = parse_spotify_ts fromiso last_added_at
      in case fetch_loop fromiso lib since_dt page_limit 0 [] [] of
           (new_tracks, asked) \<Rightarrow> (rev new_tracks, asked))"

text \<open>
  An item at which paging stops: it passes the two \<open>continue\<close> guards and its parsed
  \<open>added_at\<close> is at or below the watermark. A listing is newest-first when the items that
  pass the guards all carry a parseable \<open>added_at\<close> and these never increase along the list.
\<close>

definition stops_paging ::
  "(string \<Rightarrow> datetime option) \<Rightarrow> datetime option \<Rightarrow> sp_item \<Rightarrow> bool" where
  "stops_paging fromiso since_dt item = (new_track_of item \<noteq> None \<and> at_or_below fromiso since_dt item)"

definition not_older :: "(string \<Rightarrow> datetime option) \<Rightarrow> sp_item \<Rightarrow> sp_item \<Rightarrow> bool" where
  "not_older fromiso x y =
     (case parse_spotify_ts fromiso (added_at x) of
        None \<Rightarrow> False
      | Some a \<Rightarrow> (case parse_spotify_ts fromiso (added_at y) of None \<Rightarrow> False | Some b \<Rightarrow> b \<le> a))"

definition newest_first :: "(string \<Rightarrow> datetime option) \<Rightarrow> sp_item list \<Rightarrow> bool" where
  "newest_first fromiso lib =
     sorted_wrt (not_older fromiso) (filter (\<lambda>item. new_track_of item \<noteq> None) lib)"

section \<open>Matcher and liking, with their retry loops\<close>

fun join :: "string \<Rightarrow> string list \<Rightarrow> string" where
  "join sep [] = []"
| "join sep [x] = x"
| "join sep (x # y # ys) = x @ sep @ join sep (y # ys)"

text \<open>The query \<open>artists_str\<close>, an em dash between two spaces, \<open>name\<close>; the dash is written as its
  UTF-8 bytes.\<close>

definition search_query :: "new_track \<Rightarrow> string" where
  "search_query t =
     join '', '' (nt_artists t) @ [CHR '' '', CHR 0xE2, CHR 0x80, CHR 0x94, CHR '' ''] @ nt_name t"

definition build_yandex_like_id :: "ya_track \<Rightarrow> string option" where
  "build_yandex_like_id track_obj =
     (if \<not> truthy (y_id track_obj) \<or> y_albums track_obj = [] then None
      else if \<not> truthy (hd (y_albums track_obj)) then None
      else Some (like_key (the (y_id track_obj)) (the (hd (y_albums track_obj)))))"

text \<open>
  \<open>for attempt in range(3)\<close> around \<open>ym.search\<close>, with the attempts left as the argument.
  \<open>Inr None\<close> is the loop's \<open>else\<close> branch (no attempt succeeded); an exception other
  than \<open>TimedOutError\<close> is not caught here and leaves the function.
\<close>

fun search_attempts ::
  "env \<Rightarrow> string \<Rightarrow> nat \<Rightarrow> world \<Rightarrow> (error + search_result option) \<times> world" where
  "search_attempts E query 0 w = (Inr None, w)"
| "search_attempts E query (Suc n) w =
     (case search E (searches w) query of
        Inr r \<Rightarrow> (Inr (Some r), w\<lparr>searches := searches w + 1\<rparr>)
      | Inl e \<Rightarrow>
          if e = TimedOutError
          then search_attempts E query n (w\<lparr>searches := searches w + 1, slept := slept w + 3\<rparr>)
          else (Inl e, w\<lparr>searches := searches w + 1\<rparr>))"

fun first_result :: "search_result \<Rightarrow> ya_track option" where
  "first_result (Results (t # ts)) = Some t"
| "first_result _ = None"

definition find_best_yandex_match ::
  "env \<Rightarrow> new_track \<Rightarrow> world \<Rightarrow> (error + ya_track option) \<times> world" where
  "find_best_yandex_match E t w =
     (case search_attempts E (search_query t) 3 w of
        (Inl e, w') \<Rightarrow> (Inl e, w')
      | (Inr None, w') \<Rightarrow> (Inr None, w')
      | (Inr (Some search_result), w') \<Rightarrow> (Inr (first_result search_result), w'))"

text \<open>
  \<open>for attempt in range(3)\<close> around \<open>ym.users_likes_tracks_add\<close>. The result is the
  returned flag and the set \<open>existing_likes\<close>, which the function updates in place.
\<close>

fun like_attempts ::
  "env \<Rightarrow> string \<Rightarrow> nat \<Rightarrow> string set \<Rightarrow> world \<Rightarrow> (bool \<times> string set) \<times> world" where
  "like_attempts E like_id 0 existing_likes w = ((False, existing_likes), w)"
| "like_attempts E like_id (Suc n) existing_likes w =
     (case users_likes_tracks_add E (like_calls w) like_id of
        None \<Rightarrow>
          ((True, insert like_id existing_likes),
           w\<lparr>like_calls := like_calls w + 1, target_likes := target_likes w @ [like_id]\<rparr>)
      | Some e \<Rightarrow>
          if e = TimedOutError
          then like_attempts E like_id n existing_likes
                 (w\<lparr>like_calls := like_calls w + 1, slept := slept w + 3\<rparr>)
          else ((False, existing_likes), w\<lparr>like_calls := like_calls w + 1\<rparr>))"

definition like_yandex_track ::
  "env \<Rightarrow> ya_track \<Rightarrow> string set \<Rightarrow> world \<Rightarrow> (bool \<times> string set) \<times> world" where
  "like_yandex_track E ya_track existing_likes w =
     (case build_yandex_like_id ya_track of
        None \<Rightarrow> ((False, existing_likes), w)
      | Some like_id \<Rightarrow>
          if like_id \<in> existing_likes then ((True, existing_likes), w)
          else like_attempts E like_id 3 existing_likes w)"

section \<open>Reconciler\<close>

text \<open>
  The local variables of \<open>main\<close> that live across iterations. The Python set
  \<open>processed_ids\<close> is a duplicate-free list in insertion order; the order in which Python
  lists a set is unspecified, and nothing below reads the list other than through its elements.
\<close>

record loop_state =
  max_added_dt :: "datetime option"
  processed_ids :: "string list"
  state :: sync_state
  ya_existing_likes :: "string set"
  added :: nat
  skipped_already_processed :: nat
  not_found :: nat

definition set_add :: "string \<Rightarrow> string list \<Rightarrow> string list" where
  "set_add x xs = (if x \<in> set xs then xs else xs @ [x])"

text \<open>\<open>if added_dt and (max_added_dt is None or added_dt > max_added_dt)\<close>.\<close>

definition advance :: "datetime option \<Rightarrow> datetime option \<Rightarrow> datetime option" where
  "advance max_dt added_dt =
     (case added_dt of
        None \<Rightarrow> max_dt
      | Some a \<Rightarrow> (case max_dt of None \<Rightarrow> Some a | Some m \<Rightarrow> if m < a then Some a else Some m))"

text \<open>
  The four lines both non-skipping branches end with: add the id, mirror the set into the
  state, set the watermark when \<open>max_added_dt\<close> is set, save.
\<close>

definition mark_processed :: "string \<Rightarrow> loop_state \<Rightarrow> loop_state" where
  "mark_processed spotify_id L =
     (let ids = set_add spotify_id (processed_ids L);
          st = (state L)\<lparr>processed_spotify_ids := ids\<rparr>;
          st' = (case format_spotify_ts (max_added_dt L) of
                   None \<Rightarrow> st
                 | Some s \<Rightarrow> st\<lparr>last_spotify_added_at := PStr s\<rparr>)
      in L\<lparr>processed_ids := ids, state := st'\<rparr>)"

text \<open>One iteration of the loop over the new tracks; \<open>Some e\<close> is an exception leaving it.\<close>

definition reconcile_item ::
  "env \<Rightarrow> new_track \<Rightarrow> loop_state \<times> world \<Rightarrow> error option \<times> loop_state \<times> world" where
  "reconcile_item E t Lw =
     (case Lw of (L, w) \<Rightarrow>
        let L1 = L\<lparr>max_added_dt := advance (max_added_dt L) (parse_spotify_ts (fromisoformat E) (nt_added_at t))\<rparr>
        in if nt_id t \<in> set (processed_ids L1)
           then (None, L1\<lparr>skipped_already_processed := skipped_already_processed L1 + 1\<rparr>, w)
           else case find_best_yandex_match E t w of
               (Inl e, w1) \<Rightarrow> (Some e, L1, w1)
             | (Inr None, w1) \<Rightarrow>
                 (let L2 = mark_processed (nt_id t) (L1\<lparr>not_found := not_found L1 + 1\<rparr>)
                  in (None, L2, save_state (state L2) w1))
             | (Inr (Some ya), w1) \<Rightarrow>
                 (case like_yandex_track E ya (ya_existing_likes L1) w1 of
                    ((success, likes'), w2) \<Rightarrow>
                      let L2 = L1\<lparr>ya_existing_likes := likes',
                                  added := (if success then added L1 + 1 else added L1)\<rparr>;
                          L3 = mark_processed (nt_id t) L2
                      in (None, L3, save_state (state L3) w2)))"

fun reconcile ::
  "env \<Rightarrow> new_track list \<Rightarrow> loop_state \<times> world \<Rightarrow> error option \<times> loop_state \<times> world" where
  "reconcile E [] Lw = (None, Lw)"
| "reconcile E (t # ts) Lw =
     (case reconcile_item E t Lw of
        (Some e, Lw') \<Rightarrow> (Some e, Lw')
      | (None, Lw') \<Rightarrow> reconcile E ts Lw')"

text \<open>
  The value of the state's watermark as \<open>parse_spotify_ts\<close> receives it: a falsy value makes
  it return \<open>None\<close> at once, a string is parsed, and any other value has no \<open>endswith\<close>.
\<close>

fun as_timestamp :: "pyval \<Rightarrow> error + string option" where
  "as_timestamp PNone = Inr None"
| "as_timestamp (PStr s) = Inr (Some s)"
| "as_timestamp (PBool b) = (if b then Inl AttributeError else Inr None)"
| "as_timestamp (PInt n) = (if n = 0 then Inr None else Inl AttributeError)"
| "as_timestamp (PList xs) = (if xs = [] then Inr None else Inl AttributeError)"
| "as_timestamp (PDict kvs) = (if kvs = [] then Inr None else Inl AttributeError)"

definition main :: "env \<Rightarrow> world \<Rightarrow> error option \<times> world" where
  "main E w =
     (case init_spotify_client E of
        Some e \<Rightarrow> (Some e, w)
      | None \<Rightarrow>
     (case init_yandex_client E of
        Some e \<Rightarrow> (Some e, w)
      | None \<Rightarrow>
     (case load_state (render E) (STATE_FILE w) of
        Inl e \<Rightarrow> (Some e, w)
      | Inr st \<Rightarrow>
     (let ya_likes = fetch_yandex_liked_ids (users_likes_tracks E)
      in case as_timestamp (last_spotify_added_at st) of
        Inl e \<Rightarrow> (Some e, w)
      | Inr last_added_at_str \<Rightarrow>
     (let spotify_liked =
            fst (fetch_spotify_liked_tracks (fromisoformat E) (saved_tracks E) last_added_at_str 50)
      in if spotify_liked = [] then (None, w)
         else case reconcile E spotify_liked
                     (\<lparr>max_added_dt = parse_spotify_ts (fromisoformat E) last_added_at_str,
                       processed_ids = remdups (processed_spotify_ids st),
                       state = st,
                       ya_existing_likes = ya_likes,
                       added = 0, skipped_already_processed = 0, not_found = 0\<rparr>, w) of
                (r, L, w') \<Rightarrow> (r, w'))))))"

text \<open>The \<open>__main__\<close> block: the exit code, \<open>1\<close> for every exception that reaches it.\<close>

definition run :: "env \<Rightarrow> world \<Rightarrow> nat \<times> world" where
  "run E w = (case main E w of (None, w') \<Rightarrow> (0, w') | (Some e, w') \<Rightarrow> (1, w'))"

text \<open>The watermark a state file holds, as the next run will read it.\<close>

definition persisted_watermark ::
  "(pyval \<Rightarrow> string) \<Rightarrow> (string \<Rightarrow> datetime option) \<Rightarrow> state_file \<Rightarrow> datetime option" where
  "persisted_watermark rnd fromiso f =
     (case load_state rnd f of
        Inl e \<Rightarrow> None
      | Inr st \<Rightarrow> (case as_timestamp (last_spotify_added_at st) of
                    Inl e \<Rightarrow> None
                  | Inr ts \<Rightarrow> parse_spotify_ts fromiso ts))"

definition persisted_ids :: "(pyval \<Rightarrow> string) \<Rightarrow> state_file \<Rightarrow> string set" where
  "persisted_ids rnd f =
     (case load_state rnd f of Inl e \<Rightarrow> {} | Inr st \<Rightarrow> set (processed_spotify_ids st))"

section \<open>Example inputs\<close>

text \<open>
  A liked track with the given id and \<open>added_at\<close>; an environment with the credentials set,
  both clients starting, no likes in the target, a search that finds nothing and an add-like
  call that succeeds, and \<open>fromisoformat_utc\<close> for the library's parser; a world in which
  nothing has happened yet.
\<close>

definition liked_track :: "string \<Rightarrow> string \<Rightarrow> sp_item" where
  "liked_track i ts =
     \<lparr>track = Some \<lparr>t_id = Some i, t_name = Some i, t_artists = [Some ''artist''],
                     t_album_name = Some ''album'', t_duration_ms = Some 1000\<rparr>,
      added_at = Some ts\<rparr>"

definition quiet_env :: "sp_item list \<Rightarrow> env" where
  "quiet_env lib =
     \<lparr>SPOTIFY_CLIENT_ID = Some ''id'', SPOTIFY_CLIENT_SECRET = Some ''secret'',
      YANDEX_MUSIC_TOKEN = Some ''token'', spotify_oauth = None, yandex_client_init = None,
      saved_tracks = lib, users_likes_tracks = Inr [],
      search = (\<lambda>k q. Inr ResultNone), users_likes_tracks_add = (\<lambda>k i. None),
      render = (\<lambda>v. []), fromisoformat = fromisoformat_utc\<rparr>"

definition world_with :: "state_file \<Rightarrow> world" where
  "world_with f =
     \<lparr>STATE_FILE = f, target_likes = [], searches = 0, like_calls = 0, slept = 0, saves = 0\<rparr>"

definition found_track :: "string \<Rightarrow> string \<Rightarrow> ya_track" where
  "found_track i album = \<lparr>y_id = Some i, y_albums = [Some album], y_title = i, y_artists = []\<rparr>"

text \<open>
  Entries of the source listing that lack something: the track payload, the id (missing when
  \<open>v\<close> is \<open>None\<close>, empty when it is \<open>Some []\<close>), or the \<open>added_at\<close>. And the
  dictionary the script builds for a plain liked track.
\<close>

definition payload_less :: "string \<Rightarrow> sp_item" where
  "payload_less ts = \<lparr>track = None, added_at = Some ts\<rparr>"

definition with_id :: "string option \<Rightarrow> string \<Rightarrow> sp_item" where
  "with_id v ts =
     \<lparr>track = Some \<lparr>t_id = v, t_name = Some ''song'', t_artists = [Some ''artist''],
                     t_album_name = Some ''album'', t_duration_ms = Some 1000\<rparr>,
      added_at = Some ts\<rparr>"

definition undated :: "string \<Rightarrow> sp_item" where
  "undated i =
     \<lparr>track = Some \<lparr>t_id = Some i, t_name = Some i, t_artists = [Some ''artist''],
                     t_album_name = Some ''album'', t_duration_ms = Some 1000\<rparr>,
      added_at = None\<rparr>"

definition song :: "string \<Rightarrow> string option \<Rightarrow> new_track" where
  "song i ts =
     \<lparr>nt_id = i, nt_name = ''song'', nt_artists = [''artist''], nt_album_name = ''album'',
      nt_duration_ms = 1000, nt_added_at = ts\<rparr>"

section \<open>Properties of the timestamp functions\<close>

lemma digit_val_less: "is_digit c \<Longrightarrow> digit_val c < 10"
  by (auto simp: is_digit_def digit_val_def decimal_digits_def)

lemma digit_char_val: "is_digit c \<Longrightarrow> digit_char (digit_val c) = c"
  by (auto simp: is_digit_def digit_val_def digit_char_def decimal_digits_def)

lemma digit_not_plus: "is_digit c \<Longrightarrow> c \<noteq> CHR ''+''"
  by (auto simp: is_digit_def decimal_digits_def)

lemma fmt2_digits:
  assumes "is_digit a" "is_digit b"
  shows "fmt2 (10 * digit_val a + digit_val b) = [a, b]"
  using digit_val_less[OF assms(1)] digit_val_less[OF assms(2)] assms
  by (simp add: fmt2_def digit_char_val)

lemma horner4:
  fixes w x y z :: nat
  assumes lt: "w < 10" "x < 10" "y < 10" "z < 10"
    and n: "n = 10 * (10 * (10 * w + x) + y) + z"
  shows "n div 1000 mod 10 = w \<and> n div 100 mod 10 = x \<and> n div 10 mod 10 = y \<and> n mod 10 = z"
proof -
  have step: "\<And>q r::nat. r < 10 \<Longrightarrow> (10 * q + r) div 10 = q \<and> (10 * q + r) mod 10 = r"
    by simp
  note s1 = step[OF lt(4), of "10 * (10 * w + x) + y"]
  note s2 = step[OF lt(3), of "10 * w + x"]
  note s3 = step[OF lt(2), of w]
  have a: "n div 10 = 10 * (10 * w + x) + y" and d: "n mod 10 = z"
    by (simp_all only: n s1)
  have "n div 100 = n div 10 div 10" using div_mult2_eq[of n 10 10] by simp
  then have b: "n div 100 = 10 * w + x" by (simp only: a s2)
  have b': "n div 10 mod 10 = y" by (simp only: a s2)
  have "n div 1000 = n div 100 div 10" using div_mult2_eq[of n 100 10] by simp
  then have c: "n div 1000 = w" by (simp only: b s3)
  have c': "n div 100 mod 10 = x" by (simp only: b s3)
  have "w mod 10 = w" using lt(1) by simp
  then show ?thesis by (simp only: b' c c' d)
qed

lemma fmt4_digits:
  assumes "is_digit a" "is_digit b" "is_digit c" "is_digit d"
  shows "fmt4 (10 * (10 * (10 * digit_val a + digit_val b) + digit_val c) + digit_val d) = [a, b, c, d]"
  using horner4[OF assms[THEN digit_val_less] refl] assms
  by (simp only: fmt4_def digit_char_val)

lemma str_replace_suffix:
  "CHR ''+'' \<notin> set ds \<Longrightarrow>
   str_replace (CHR ''+'') ''00:00'' ''Z'' (ds @ ''+00:00'') = ds @ ''Z''"
  by (induction ds) auto

lemma upt20: "[0..<20] = [0,1,2,3,4,5,6,7,8,9,10,11,12,13,14,15,16,17,18,19]"
  by code_simp

lemma list20_nth:
  assumes "length (s::'a list) = 20"
  shows "s = [s!0,s!1,s!2,s!3,s!4,s!5,s!6,s!7,s!8,s!9,s!10,s!11,s!12,s!13,s!14,s!15,s!16,s!17,s!18,s!19]"
proof -
  have "s = map ((!) s) [0..<20]" using assms map_nth[of s] by simp
  then show ?thesis unfolding upt20 by simp
qed

lemma list20:
  assumes "length (s::'a list) = 20"
  obtains c0 c1 c2 c3 c4 c5 c6 c7 c8 c9 c10 c11 c12 c13 c14 c15 c16 c17 c18 c19 where
    "s = [c0,c1,c2,c3,c4,c5,c6,c7,c8,c9,c10,c11,c12,c13,c14,c15,c16,c17,c18,c19]"
  by (rule that, rule list20_nth[OF assms])

text \<open>
  Claim C10. For every \<open>Z\<close>-suffixed, second-precision ISO-8601 UTC timestamp string \<open>s\<close>
  (twenty characters \<open>YYYY-MM-DDTHH:MM:SSZ\<close> whose fields lie in the ranges \<open>datetime\<close>
  represents), formatting the parsed value gives back \<open>s\<close> itself, so a watermark written to
  the state file and read again is the same string.
\<close>

theorem format_parse_roundtrip:
  assumes "is_spotify_ts s"
  shows "format_spotify_ts (parse_spotify_ts fromisoformat_utc (Some s)) = Some s"
proof -
  from assms have len: "length s = 20" by (simp add: is_spotify_ts_def)
  obtain c0 c1 c2 c3 c4 c5 c6 c7 c8 c9 c10 c11 c12 c13 c14 c15 c16 c17 c18 c19 where
    s: "s = [c0,c1,c2,c3,c4,c5,c6,c7,c8,c9,c10,c11,c12,c13,c14,c15,c16,c17,c18,c19]"
    by (rule list20[OF len])
  from assms have dg: "is_digit c0" "is_digit c1" "is_digit c2" "is_digit c3"
      "is_digit c5" "is_digit c6" "is_digit c8" "is_digit c9" "is_digit c11" "is_digit c12"
      "is_digit c14" "is_digit c15" "is_digit c17" "is_digit c18"
    and sep: "c4 = CHR ''-''" "c7 = CHR ''-''" "c10 = CHR ''T''" "c13 = CHR '':''"
      "c16 = CHR '':''" "c19 = CHR ''Z''"
    by (simp_all add: is_spotify_ts_def s)
  define y where "y = 10 * (10 * (10 * digit_val c0 + digit_val c1) + digit_val c2) + digit_val c3"
  define m where "m = 10 * digit_val c5 + digit_val c6"
  define d where "d = 10 * digit_val c8 + digit_val c9"
  define h where "h = 10 * digit_val c11 + digit_val c12"
  define mi where "mi = 10 * digit_val c14 + digit_val c15"
  define se where "se = 10 * digit_val c17 + digit_val c18"
  from assms have vf: "valid_fields y m d h mi se"
    by (simp add: is_spotify_ts_def s digits_value_def y_def m_def d_def h_def mi_def se_def)
  have p: "parse_spotify_ts fromisoformat_utc (Some s) = Some (y, m, d, h, mi, se, 0)"
    using dg vf
    by (simp add: parse_spotify_ts_def endswith_Z_def fromisoformat_utc_def s sep
        y_def m_def d_def h_def mi_def se_def)
  have f: "fmt4 y = [c0,c1,c2,c3]" "fmt2 m = [c5,c6]" "fmt2 d = [c8,c9]" "fmt2 h = [c11,c12]"
      "fmt2 mi = [c14,c15]" "fmt2 se = [c17,c18]"
    unfolding y_def m_def d_def h_def mi_def se_def
    using dg by (simp_all only: fmt4_digits fmt2_digits)
  have fmt: "isoformat (y, m, d, h, mi, se, 0) =
      [c0,c1,c2,c3,c4,c5,c6,c7,c8,c9,c10,c11,c12,c13,c14,c15,c16,c17,c18] @ ''+00:00''"
    by (simp add: f sep)
  have np: "CHR ''+'' \<notin> set [c0,c1,c2,c3,c4,c5,c6,c7,c8,c9,c10,c11,c12,c13,c14,c15,c16,c17,c18]"
    using dg[THEN digit_not_plus] by (simp add: sep)
  show ?thesis
    unfolding p format_spotify_ts_def
    by (simp only: option.case replace_microsecond.simps fmt str_replace_suffix[OF np]) (simp add: s sep)
qed


theorem format_parse_roundtrip_witness:
  "is_spotify_ts ''2025-12-02T10:33:56Z''
   \<and> format_spotify_ts (parse_spotify_ts fromisoformat_utc (Some ''2025-12-02T10:33:56Z'')) = Some ''2025-12-02T10:33:56Z''"
proof -
  have h: "is_spotify_ts ''2025-12-02T10:33:56Z''"
    by code_simp
  show ?thesis
    using h format_parse_roundtrip [OF h] by simp
qed

section \<open>Change Detector: what is returned and which pages are asked for\<close>

declare fetch_loop.simps [simp del]

lemma takeWhile_True: "takeWhile (\<lambda>x. True) xs = xs"
  by (induction xs) simp_all

lemma map_filter_append:
  "List.map_filter f (xs @ ys) = List.map_filter f xs @ List.map_filter f ys"
  by (simp add: List.map_filter_def)

lemma map_filter_empty:
  "(\<And>x. x \<in> set xs \<Longrightarrow> f x = None) \<Longrightarrow> List.map_filter f xs = []"
  by (induction xs) (simp_all add: List.map_filter_simps)

lemma scan_page_eq:
  "scan_page fromiso s items acc =
     (acc @ List.map_filter new_track_of (takeWhile (\<lambda>it. \<not> stops_paging fromiso s it) items),
      \<exists>it \<in> set items. stops_paging fromiso s it)"
  by (induction items arbitrary: acc)
     (auto simp: List.map_filter_simps stops_paging_def split: option.splits)

lemma page_split:
  "drop off lib = current_user_saved_tracks lib L off @ drop (off + L) lib"
  unfolding current_user_saved_tracks_def
  by (metis append_take_drop_id drop_drop add.commute)

lemma fetch_loop_eq:
  assumes L: "0 < L"
  shows "fst (fetch_loop fromiso lib s L off acc asked) =
           acc @ List.map_filter new_track_of (takeWhile (\<lambda>it. \<not> stops_paging fromiso s it) (drop off lib))"
  using assms
proof (induction fromiso lib s L off acc asked rule: fetch_loop.induct)
  case (1 fromiso lib s L off acc asked)
  note L = "1.prems"
  define items where "items = current_user_saved_tracks lib L off"
  let ?P = "\<lambda>it. \<not> stops_paging fromiso s it"
  obtain nt stop where sp: "scan_page fromiso s items acc = (nt, stop)" by (cases "scan_page fromiso s items acc")
  from sp have nt: "nt = acc @ List.map_filter new_track_of (takeWhile ?P items)"
    and stop: "stop = (\<exists>it \<in> set items. stops_paging fromiso s it)"
    by (simp_all add: scan_page_eq)
  have split: "drop off lib = items @ drop (off + L) lib"
    unfolding items_def by (rule page_split)
  show ?case
  proof (cases "items = []")
    case True
    then have "drop off lib = []"
      using L by (auto simp: items_def current_user_saved_tracks_def)
    then show ?thesis
      using True by (subst fetch_loop.simps) (simp add: items_def[symmetric] Let_def)
  next
    case ne: False
    show ?thesis
    proof (cases stop)
      case True
      then obtain it where "it \<in> set items" "\<not> ?P it" by (auto simp: stop)
      then have "takeWhile ?P (drop off lib) = takeWhile ?P items"
        by (subst split) (rule takeWhile_append1)
      then show ?thesis
        using ne True sp
        by (subst fetch_loop.simps) (simp add: items_def[symmetric] Let_def nt)
    next
      case ns: False
      then have allP: "\<And>x. x \<in> set items \<Longrightarrow> ?P x" by (auto simp: stop)
      have tw: "takeWhile ?P (drop off lib) = items @ takeWhile ?P (drop (off + L) lib)"
        by (subst split) (rule takeWhile_append2[OF allP])
      have twi: "takeWhile ?P items = items" using allP by (simp add: takeWhile_eq_all_conv)
      show ?thesis
      proof (cases "length items < L")
        case True
        then have "drop (off + L) lib = []"
          by (auto simp: items_def current_user_saved_tracks_def)
        then show ?thesis
          using ne ns sp True tw
          by (subst fetch_loop.simps) (simp add: items_def[symmetric] Let_def nt twi)
      next
        case False
        then have len: "length items = L"
          by (auto simp: items_def current_user_saved_tracks_def)
        have "fst (fetch_loop fromiso lib s L (off + length items) nt (asked @ [off])) =
              nt @ List.map_filter new_track_of
                     (takeWhile (\<lambda>it. \<not> stops_paging fromiso s it) (drop (off + length items) lib))"
          using "1.IH"[OF items_def refl ne sp[symmetric] ns False L] .
        then show ?thesis
          using ne ns sp False tw
          by (subst fetch_loop.simps)
             (simp add: items_def[symmetric] Let_def nt twi len map_filter_append)
      qed
    qed
  qed
qed

lemma fetch_loop_asked:
  assumes L: "0 < L"
    and "\<forall>it \<in> set (take off lib). \<not> stops_paging fromiso s it"
    and "\<forall>p \<in> set asked. \<forall>it \<in> set (take p lib). \<not> stops_paging fromiso s it"
  shows "\<forall>p \<in> set (snd (fetch_loop fromiso lib s L off acc asked)).
           \<forall>it \<in> set (take p lib). \<not> stops_paging fromiso s it"
  using assms
proof (induction fromiso lib s L off acc asked rule: fetch_loop.induct)
  case (1 fromiso lib s L off acc asked)
  define items where "items = current_user_saved_tracks lib L off"
  obtain nt stop where sp: "scan_page fromiso s items acc = (nt, stop)" by (cases "scan_page fromiso s items acc")
  from sp have stop: "stop = (\<exists>it \<in> set items. stops_paging fromiso s it)"
    by (simp_all add: scan_page_eq)
  have here: "\<forall>p \<in> set (asked @ [off]). \<forall>it \<in> set (take p lib). \<not> stops_paging fromiso s it"
    using "1.prems" by auto
  show ?case
  proof (cases "items \<noteq> [] \<and> \<not> stop \<and> \<not> length items < L")
    case False
    then show ?thesis
      using here sp
      by (subst fetch_loop.simps) (auto simp: items_def[symmetric] Let_def)
  next
    case True
    then have len: "length items = L"
      by (auto simp: items_def current_user_saved_tracks_def)
    have "take (off + L) lib = take off lib @ items"
      by (simp add: items_def current_user_saved_tracks_def take_add)
    then have next_ok: "\<forall>it \<in> set (take (off + length items) lib). \<not> stops_paging fromiso s it"
      using True "1.prems"(2) by (auto simp: stop len)
    have "\<forall>p \<in> set (snd (fetch_loop fromiso lib s L (off + length items) nt (asked @ [off]))).
           \<forall>it \<in> set (take p lib). \<not> stops_paging fromiso s it"
      using True "1.IH"[OF items_def refl _ sp[symmetric] _ _ "1.prems"(1) next_ok here] by blast
    then show ?thesis
      using True sp
      by (subst fetch_loop.simps) (simp add: items_def[symmetric] Let_def)
  qed
qed

lemma newest_first_Cons:
  "newest_first fromiso (x # xs) \<Longrightarrow> newest_first fromiso xs"
  by (auto simp: newest_first_def split: if_splits)

lemma newest_first_below:
  assumes "newest_first fromiso (x # xs)" "stops_paging fromiso s x" "y \<in> set xs" "new_track_of y \<noteq> None"
  shows "at_or_below fromiso s y"
proof -
  from assms have "not_older fromiso x y"
    by (auto simp: newest_first_def stops_paging_def)
  with assms(2) show ?thesis
    by (auto simp: not_older_def stops_paging_def at_or_below_def split: option.splits)
qed

lemma newest_first_filter:
  "newest_first fromiso lib \<Longrightarrow>
   List.map_filter new_track_of (takeWhile (\<lambda>it. \<not> stops_paging fromiso s it) lib) =
   List.map_filter new_track_of (filter (\<lambda>it. \<not> at_or_below fromiso s it) lib)"
proof (induction lib)
  case Nil
  then show ?case by simp
next
  case (Cons x xs)
  show ?case
  proof (cases "stops_paging fromiso s x")
    case True
    have "List.map_filter new_track_of (filter (\<lambda>it. \<not> at_or_below fromiso s it) xs) = []"
    proof (rule map_filter_empty)
      fix y assume "y \<in> set (filter (\<lambda>it. \<not> at_or_below fromiso s it) xs)"
      then have "y \<in> set xs" "\<not> at_or_below fromiso s y" by auto
      then show "new_track_of y = None"
        using newest_first_below[OF Cons.prems True, of y] by blast
    qed
    then show ?thesis using True by (auto simp: stops_paging_def List.map_filter_simps)
  next
    case False
    then show ?thesis
      using Cons.IH[OF newest_first_Cons[OF Cons.prems]]
      by (auto simp: stops_paging_def List.map_filter_simps split: option.splits)
  qed
qed

lemma map_filter_as_map:
  "List.map_filter new_track_of xs =
     map (\<lambda>item. the (new_track_of item)) (filter (\<lambda>item. new_track_of item \<noteq> None) xs)"
  by (simp add: List.map_filter_def comp_def)

text \<open>
  Claim C1, as amended. For a page size above zero, any listing, any watermark and whatever
  the library parses: call an item kept when it has a track payload with a non-empty id, and
  below when the watermark is set, the item's \<open>added_at\<close> parses, and it is at or below the
  watermark. The Change Detector returns, oldest first, the dictionaries of the kept items it
  met before the first item that is both kept and below; an item that is not kept is dropped
  and does not stop the scan, and an item whose \<open>added_at\<close> does not parse is never below, so
  it is returned when it is met. No page is asked for once an item both kept and below lies in
  the part of the listing already read. Without a watermark every kept item is returned; on a
  newest-first listing the result is exactly the kept items that are not below. The dictionary
  of a kept item holds its id, its \<open>added_at\<close> as listed, and the other keys with their
  defaults.
\<close>

theorem change_detector:
  assumes "0 < page_limit"
  shows "(let since_dt = parse_spotify_ts fromiso last_added_at;
              out = fetch_spotify_liked_tracks fromiso lib last_added_at page_limit;
              kept = (\<lambda>item. track item \<noteq> None \<and> t_id (the (track item)) \<noteq> None
                              \<and> t_id (the (track item)) \<noteq> Some []);
              below = (\<lambda>item. \<exists>s a. since_dt = Some s
                              \<and> parse_spotify_ts fromiso (added_at item) = Some a \<and> a \<le> s);
              dict = (\<lambda>item. the (new_track_of item))
          in fst out = rev (map dict (filter kept (takeWhile (\<lambda>item. \<not> (kept item \<and> below item)) lib)))
             \<and> (\<forall>p \<in> set (snd out). \<forall>item \<in> set (take p lib). \<not> (kept item \<and> below item))
             \<and> (since_dt = None \<longrightarrow> fst out = rev (map dict (filter kept lib)))
             \<and> (newest_first fromiso lib \<longrightarrow>
                  fst out = rev (map dict (filter (\<lambda>item. kept item \<and> \<not> below item) lib))))
         \<and> (track x = Some tr \<and> t_id tr = Some i \<and> i \<noteq> [] \<longrightarrow>
              new_track_of x =
                Some \<lparr>nt_id = i,
                      nt_name = (case t_name tr of None \<Rightarrow> [] | Some n \<Rightarrow> n),
                      nt_artists = map (\<lambda>a. case a of None \<Rightarrow> [] | Some n \<Rightarrow> n) (t_artists tr),
                      nt_album_name = (case t_album_name tr of None \<Rightarrow> [] | Some n \<Rightarrow> n),
                      nt_duration_ms = (case t_duration_ms tr of None \<Rightarrow> 0 | Some d \<Rightarrow> d),
                      nt_added_at = added_at x\<rparr>)"
proof -
  define s where "s = parse_spotify_ts fromiso last_added_at"
  define out where "out = fetch_spotify_liked_tracks fromiso lib last_added_at page_limit"
  define kept where "kept = (\<lambda>item :: sp_item. track item \<noteq> None \<and> t_id (the (track item)) \<noteq> None
                              \<and> t_id (the (track item)) \<noteq> Some [])"
  define below where "below = (\<lambda>item :: sp_item. \<exists>t a. s = Some t
                              \<and> parse_spotify_ts fromiso (added_at item) = Some a \<and> a \<le> t)"
  define dict where "dict = (\<lambda>item :: sp_item. the (new_track_of item))"
  have k: "(\<lambda>item. new_track_of item \<noteq> None) = kept"
    by (rule ext) (auto simp: kept_def new_track_of_def truthy_def split: option.splits)
  have b: "at_or_below fromiso s = below"
    by (rule ext) (auto simp: below_def at_or_below_def split: option.splits)
  have st: "(\<lambda>item. \<not> stops_paging fromiso s item) = (\<lambda>item. \<not> (kept item \<and> below item))"
    by (rule ext) (simp add: stops_paging_def k [symmetric] b [symmetric])
  have mf: "\<And>xs. List.map_filter new_track_of xs = map dict (filter kept xs)"
    by (simp only: map_filter_as_map k dict_def)
  have raw: "fst out = rev (List.map_filter new_track_of
                             (takeWhile (\<lambda>item. \<not> stops_paging fromiso s item) lib))"
    using fetch_loop_eq [OF assms, of fromiso lib s 0 "[]" "[]"]
    by (simp add: out_def fetch_spotify_liked_tracks_def s_def Let_def case_prod_beta)
  have c1: "fst out = rev (map dict (filter kept (takeWhile (\<lambda>item. \<not> (kept item \<and> below item)) lib)))"
    by (simp only: raw st mf)
  have "\<forall>p \<in> set (snd out). \<forall>item \<in> set (take p lib). \<not> stops_paging fromiso s item"
    using fetch_loop_asked [OF assms, of 0 lib fromiso s "[]" "[]"]
    by (simp add: out_def fetch_spotify_liked_tracks_def s_def Let_def case_prod_beta)
  then have c2: "\<forall>p \<in> set (snd out). \<forall>item \<in> set (take p lib). \<not> (kept item \<and> below item)"
    by (simp add: stops_paging_def k [symmetric] b [symmetric])
  have c3: "s = None \<longrightarrow> fst out = rev (map dict (filter kept lib))"
    by (simp add: c1 below_def takeWhile_True)
  have "newest_first fromiso lib \<longrightarrow>
       fst out = rev (List.map_filter new_track_of (filter (\<lambda>item. \<not> at_or_below fromiso s item) lib))"
    by (simp add: raw newest_first_filter)
  then have c4: "newest_first fromiso lib \<longrightarrow>
       fst out = rev (map dict (filter (\<lambda>item. kept item \<and> \<not> below item) lib))"
    by (simp add: mf b conj_commute)
  have c5: "track x = Some tr \<and> t_id tr = Some i \<and> i \<noteq> [] \<longrightarrow>
              new_track_of x =
                Some \<lparr>nt_id = i,
                      nt_name = (case t_name tr of None \<Rightarrow> [] | Some n \<Rightarrow> n),
                      nt_artists = map (\<lambda>a. case a of None \<Rightarrow> [] | Some n \<Rightarrow> n) (t_artists tr),
                      nt_album_name = (case t_album_name tr of None \<Rightarrow> [] | Some n \<Rightarrow> n),
                      nt_duration_ms = (case t_duration_ms tr of None \<Rightarrow> 0 | Some d \<Rightarrow> d),
                      nt_added_at = added_at x\<rparr>"
  proof -
    have "or_empty = (\<lambda>a. case a of None \<Rightarrow> [] | Some n \<Rightarrow> n)"
      by (rule ext) (simp add: or_empty_def)
    then show ?thesis
      by (simp add: new_track_of_def truthy_def)
  qed
  show ?thesis
    unfolding Let_def
    using c1 c2 c3 c4 c5
    unfolding s_def out_def kept_def below_def dict_def
    by blast
qed

theorem change_detector_witness:
  "(let sorted_lib = [liked_track ''c'' ''2025-01-03T00:00:00Z'',
                      liked_track ''b'' ''2025-01-02T00:00:00Z'',
                      liked_track ''a'' ''2025-01-01T00:00:00Z''];
        wm = Some ''2025-01-01T00:00:00Z'';
        out = fetch_spotify_liked_tracks fromisoformat_utc sorted_lib wm 2;
        ragged_lib = [liked_track ''d'' ''2025-01-04T00:00:00Z'',
                      payload_less ''2025-01-04T00:00:00Z'',
                      with_id None ''2025-01-04T00:00:00Z'',
                      with_id (Some []) ''2025-01-04T00:00:00Z'',
                      undated ''u'',
                      liked_track ''v'' ''yesterday'',
                      liked_track ''b'' ''2025-01-02T00:00:00Z'',
                      liked_track ''a'' ''2025-01-01T00:00:00Z''];
        wm' = Some ''2025-01-02T00:00:00Z'';
        out' = fetch_spotify_liked_tracks fromisoformat_utc ragged_lib wm' 2
    in (0::nat) < 2
       \<and> newest_first fromisoformat_utc sorted_lib
       \<and> fst out =
           rev (map (\<lambda>item. the (new_track_of item))
                  (filter (\<lambda>item. (track item \<noteq> None \<and> t_id (the (track item)) \<noteq> None
                                     \<and> t_id (the (track item)) \<noteq> Some [])
                                  \<and> \<not> (\<exists>s a. parse_spotify_ts fromisoformat_utc wm = Some s
                                        \<and> parse_spotify_ts fromisoformat_utc (added_at item) = Some a
                                        \<and> a \<le> s))
                     sorted_lib))
       \<and> fst out = [song ''b'' (Some ''2025-01-02T00:00:00Z'')\<lparr>nt_name := ''b''\<rparr>,
                     song ''c'' (Some ''2025-01-03T00:00:00Z'')\<lparr>nt_name := ''c''\<rparr>]
       \<and> snd out = [0, 2]
       \<and> fst out' = [song ''v'' (Some ''yesterday'')\<lparr>nt_name := ''v''\<rparr>,
                      song ''u'' None\<lparr>nt_name := ''u''\<rparr>,
                      song ''d'' (Some ''2025-01-04T00:00:00Z'')\<lparr>nt_name := ''d''\<rparr>]
       \<and> snd out' = [0, 2, 4, 6]
       \<and> (\<forall>p \<in> set (snd out'). \<forall>item \<in> set (take p ragged_lib).
             \<not> ((track item \<noteq> None \<and> t_id (the (track item)) \<noteq> None
                   \<and> t_id (the (track item)) \<noteq> Some [])
                \<and> (\<exists>s a. parse_spotify_ts fromisoformat_utc wm' = Some s
                       \<and> parse_spotify_ts fromisoformat_utc (added_at item) = Some a \<and> a \<le> s))))"
proof -
  define sorted_lib where "sorted_lib = [liked_track ''c'' ''2025-01-03T00:00:00Z'',
                      liked_track ''b'' ''2025-01-02T00:00:00Z'',
                      liked_track ''a'' ''2025-01-01T00:00:00Z'']"
  define ragged_lib where "ragged_lib = [liked_track ''d'' ''2025-01-04T00:00:00Z'',
                      payload_less ''2025-01-04T00:00:00Z'',
                      with_id None ''2025-01-04T00:00:00Z'',
                      with_id (Some []) ''2025-01-04T00:00:00Z'',
                      undated ''u'',
                      liked_track ''v'' ''yesterday'',
                      liked_track ''b'' ''2025-01-02T00:00:00Z'',
                      liked_track ''a'' ''2025-01-01T00:00:00Z'']"
  define wm where "wm = Some ''2025-01-01T00:00:00Z''"
  define wm' where "wm' = Some ''2025-01-02T00:00:00Z''"
  have h: "(0::nat) < 2" by simp
  have nf: "newest_first fromisoformat_utc sorted_lib"
    unfolding sorted_lib_def by code_simp
  have ev: "fst (fetch_spotify_liked_tracks fromisoformat_utc sorted_lib wm 2)
              = [song ''b'' (Some ''2025-01-02T00:00:00Z'')\<lparr>nt_name := ''b''\<rparr>,
                 song ''c'' (Some ''2025-01-03T00:00:00Z'')\<lparr>nt_name := ''c''\<rparr>]"
      "snd (fetch_spotify_liked_tracks fromisoformat_utc sorted_lib wm 2) = [0, 2]"
      "fst (fetch_spotify_liked_tracks fromisoformat_utc ragged_lib wm' 2)
              = [song ''v'' (Some ''yesterday'')\<lparr>nt_name := ''v''\<rparr>,
                 song ''u'' None\<lparr>nt_name := ''u''\<rparr>,
                 song ''d'' (Some ''2025-01-04T00:00:00Z'')\<lparr>nt_name := ''d''\<rparr>]"
      "snd (fetch_spotify_liked_tracks fromisoformat_utc ragged_lib wm' 2) = [0, 2, 4, 6]"
    unfolding sorted_lib_def ragged_lib_def wm_def wm'_def by code_simp+
  note sorted_case = change_detector [OF h, of fromisoformat_utc wm sorted_lib, unfolded Let_def]
  note ragged_case = change_detector [OF h, of fromisoformat_utc wm' ragged_lib, unfolded Let_def]
  have filt: "fst (fetch_spotify_liked_tracks fromisoformat_utc sorted_lib wm 2) =
           rev (map (\<lambda>item. the (new_track_of item))
                  (filter (\<lambda>item. (track item \<noteq> None \<and> t_id (the (track item)) \<noteq> None
                                     \<and> t_id (the (track item)) \<noteq> Some [])
                                  \<and> \<not> (\<exists>s a. parse_spotify_ts fromisoformat_utc wm = Some s
                                        \<and> parse_spotify_ts fromisoformat_utc (added_at item) = Some a
                                        \<and> a \<le> s))
                     sorted_lib))"
    using sorted_case nf by blast
  have pages: "\<forall>p \<in> set (snd (fetch_spotify_liked_tracks fromisoformat_utc ragged_lib wm' 2)).
           \<forall>item \<in> set (take p ragged_lib).
             \<not> ((track item \<noteq> None \<and> t_id (the (track item)) \<noteq> None
                   \<and> t_id (the (track item)) \<noteq> Some [])
                \<and> (\<exists>s a. parse_spotify_ts fromisoformat_utc wm' = Some s
                       \<and> parse_spotify_ts fromisoformat_utc (added_at item) = Some a \<and> a \<le> s))"
    using ragged_case by blast
  show ?thesis
    unfolding Let_def
    using h nf filt ev pages
    unfolding sorted_lib_def [symmetric] ragged_lib_def [symmetric] wm_def [symmetric]
      wm'_def [symmetric]
    by (intro conjI) assumption+
qed

text \<open>
  Claim C1 as it is worded has paging stop at the first item whose parsed \<open>added_at\<close> is at
  or below the watermark. Here the watermark is 2 January and the second entry of the listing,
  of 1 January, has no track payload: it is dropped before its date is looked at, and the
  pages at offsets 2 and 4 are still asked for.
\<close>

theorem paging_continues_past_dropped_item:
  "snd (fetch_spotify_liked_tracks fromisoformat_utc
          [liked_track ''n'' ''2025-01-03T00:00:00Z'', payload_less ''2025-01-01T00:00:00Z'',
           payload_less ''2025-01-01T00:00:00Z'', payload_less ''2025-01-01T00:00:00Z'',
           payload_less ''2025-01-01T00:00:00Z'']
          (Some ''2025-01-02T00:00:00Z'') 2) = [0, 2, 4]
   \<and> parse_spotify_ts fromisoformat_utc (added_at (payload_less ''2025-01-01T00:00:00Z''))
       = Some (2025, 1, 1, 0, 0, 0, 0)
   \<and> parse_spotify_ts fromisoformat_utc (Some ''2025-01-02T00:00:00Z'') = Some (2025, 1, 2, 0, 0, 0, 0)
   \<and> ((2025, 1, 1, 0, 0, 0, 0) :: datetime) \<le> (2025, 1, 2, 0, 0, 0, 0)"
  by code_simp

section \<open>Target Snapshot: what is fetched\<close>

lemma collect_likes_eq:
  "collect_likes likes acc =
     acc \<union> (\<lambda>it. like_key (the (l_id it)) (the (l_album_id it)))
             ` {it \<in> set likes. truthy (l_id it) \<and> truthy (l_album_id it)}"
  by (induction likes arbitrary: acc) auto

lemma search_attempts_listing [simp]:
  "search_attempts (E\<lparr>users_likes_tracks := x\<rparr>) q n w = search_attempts E q n w"
  by (induction n arbitrary: w) (auto split: sum.splits)

lemma like_attempts_listing [simp]:
  "like_attempts (E\<lparr>users_likes_tracks := x\<rparr>) k n ex w = like_attempts E k n ex w"
  by (induction n arbitrary: w) (auto split: option.splits)

lemma find_best_listing [simp]:
  "find_best_yandex_match (E\<lparr>users_likes_tracks := x\<rparr>) t w = find_best_yandex_match E t w"
  by (simp add: find_best_yandex_match_def)

lemma like_track_listing [simp]:
  "like_yandex_track (E\<lparr>users_likes_tracks := x\<rparr>) ya ex w = like_yandex_track E ya ex w"
  by (simp add: like_yandex_track_def split: option.splits)

lemma reconcile_item_listing [simp]:
  "reconcile_item (E\<lparr>users_likes_tracks := x\<rparr>) t Lw = reconcile_item E t Lw"
  by (simp add: reconcile_item_def Let_def
      cong: prod.case_cong sum.case_cong option.case_cong if_cong)

lemma reconcile_listing [simp]:
  "reconcile (E\<lparr>users_likes_tracks := x\<rparr>) ts Lw = reconcile E ts Lw"
  by (induction ts arbitrary: Lw) (simp_all split: prod.splits option.splits)

text \<open>
  Claim C8. When the like-listing call fails, the snapshot is the empty set (the function has
  no failing result), and the run goes on exactly as it does on an empty listing; when it
  succeeds, the snapshot is the set of the strings made of the track id, a colon and the album
  id, one for each listed like whose track id and album id are both present and non-empty.
\<close>

theorem snapshot_best_effort:
  "fetch_yandex_liked_ids (Inl e) = {}
   \<and> fetch_yandex_liked_ids (Inr likes) =
       {tid @ '':'' @ aid | tid aid.
          \<exists>it \<in> set likes. l_id it = Some tid \<and> l_album_id it = Some aid \<and> tid \<noteq> [] \<and> aid \<noteq> []}
   \<and> main (E\<lparr>users_likes_tracks := Inl e\<rparr>) w = main (E\<lparr>users_likes_tracks := Inr []\<rparr>) w"
proof -
  have "main (E\<lparr>users_likes_tracks := Inl e\<rparr>) w = main (E\<lparr>users_likes_tracks := Inr []\<rparr>) w"
    by (simp add: main_def fetch_yandex_liked_ids_def init_spotify_client_def
        init_yandex_client_def Let_def
        cong: option.case_cong sum.case_cong if_cong)
  moreover have "fetch_yandex_liked_ids (Inr likes) =
       {tid @ '':'' @ aid | tid aid.
          \<exists>it \<in> set likes. l_id it = Some tid \<and> l_album_id it = Some aid \<and> tid \<noteq> [] \<and> aid \<noteq> []}"
  proof -
    have t: "\<And>v. truthy v \<longleftrightarrow> (\<exists>s. v = Some s \<and> s \<noteq> [])"
      by (simp add: truthy_def split: option.splits)
    show ?thesis
      unfolding fetch_yandex_liked_ids_def sum.case collect_likes_eq like_key_def t
      by (rule set_eqI) force
  qed
  ultimately show ?thesis
    by (simp add: fetch_yandex_liked_ids_def)
qed

theorem snapshot_best_effort_witness:
  "fetch_yandex_liked_ids
     (Inr [\<lparr>l_id = Some ''7'', l_album_id = Some ''9''\<rparr>,
           \<lparr>l_id = Some ''8'', l_album_id = None\<rparr>,
           \<lparr>l_id = Some [], l_album_id = Some ''3''\<rparr>,
           \<lparr>l_id = None, l_album_id = Some ''4''\<rparr>,
           \<lparr>l_id = Some ''12'', l_album_id = Some ''345''\<rparr>]) = {''7:9'', ''12:345''}
   \<and> fetch_yandex_liked_ids (Inl (OtherError ''NetworkError'')) = {}"
proof -
  have "fetch_yandex_liked_ids
     (Inr [\<lparr>l_id = Some ''7'', l_album_id = Some ''9''\<rparr>,
           \<lparr>l_id = Some ''8'', l_album_id = None\<rparr>,
           \<lparr>l_id = Some [], l_album_id = Some ''3''\<rparr>,
           \<lparr>l_id = None, l_album_id = Some ''4''\<rparr>,
           \<lparr>l_id = Some ''12'', l_album_id = Some ''345''\<rparr>]) = {''7:9'', ''12:345''}"
    by code_simp
  then show ?thesis
    using snapshot_best_effort [of "OtherError ''NetworkError''" "[]" "quiet_env []" "world_with Missing"]
    by simp
qed

section \<open>Loading the state\<close>

text \<open>
  Claim C5 says that loading returns a state, without raising, for a state file of any content,
  JSON of any shape included. A missing or unreadable file does give the default state, but a
  state file holding the JSON array \<open>[]\<close> makes \<open>load_state\<close> raise
  \<open>AttributeError\<close>.
\<close>

theorem load_state_non_dict:
  "load_state rnd Missing = Inr STATE_DEFAULT
   \<and> load_state rnd Unreadable = Inr STATE_DEFAULT
   \<and> load_state rnd (Content (PList [])) = Inl AttributeError"
  by simp


section \<open>Retry policy\<close>

text \<open>
  Claim C6. A search and an add-like call make at most three attempts. A further attempt
  follows only an attempt that timed out, after a sleep of three seconds; an attempt that ends
  in any other way is the last one. After three timeouts the search reports \<open>None\<close> and the
  like reports \<open>False\<close>; a timeout is never raised to the caller.
\<close>

theorem retry_policy:
  "(case find_best_yandex_match E t w of (r, w') \<Rightarrow>
      (let n = searches w; q = search_query t; T = Inl TimedOutError in
       searches w' \<le> n + 3
       \<and> (search E n q \<noteq> T \<longrightarrow> searches w' = n + 1 \<and> slept w' = slept w)
       \<and> (search E n q = T \<and> search E (n + 1) q \<noteq> T \<longrightarrow>
            searches w' = n + 2 \<and> slept w' = slept w + 3)
       \<and> (search E n q = T \<and> search E (n + 1) q = T \<and> search E (n + 2) q \<noteq> T \<longrightarrow>
            searches w' = n + 3 \<and> slept w' = slept w + 6)
       \<and> (search E n q = T \<and> search E (n + 1) q = T \<and> search E (n + 2) q = T \<longrightarrow>
            searches w' = n + 3 \<and> slept w' = slept w + 9 \<and> r = Inr None)
       \<and> r \<noteq> Inl TimedOutError))
   \<and> (build_yandex_like_id ya = Some k \<and> k \<notin> ex \<longrightarrow>
      (case like_yandex_track E ya ex w of ((ok, ex'), w') \<Rightarrow>
        (let n = like_calls w; T = Some TimedOutError; add = users_likes_tracks_add E in
         like_calls w' \<le> n + 3
         \<and> (add n k \<noteq> T \<longrightarrow> like_calls w' = n + 1 \<and> slept w' = slept w \<and> ok = (add n k = None))
         \<and> (add n k = T \<and> add (n + 1) k \<noteq> T \<longrightarrow>
              like_calls w' = n + 2 \<and> slept w' = slept w + 3 \<and> ok = (add (n + 1) k = None))
         \<and> (add n k = T \<and> add (n + 1) k = T \<and> add (n + 2) k \<noteq> T \<longrightarrow>
              like_calls w' = n + 3 \<and> slept w' = slept w + 6 \<and> ok = (add (n + 2) k = None))
         \<and> (add n k = T \<and> add (n + 1) k = T \<and> add (n + 2) k = T \<longrightarrow>
              like_calls w' = n + 3 \<and> slept w' = slept w + 9 \<and> \<not> ok))))"
proof -
  have three: "(3::nat) = Suc (Suc (Suc 0))" by simp
  have s: "case find_best_yandex_match E t w of (r, w') \<Rightarrow>
      (let n = searches w; q = search_query t; T = Inl TimedOutError in
       searches w' \<le> n + 3
       \<and> (search E n q \<noteq> T \<longrightarrow> searches w' = n + 1 \<and> slept w' = slept w)
       \<and> (search E n q = T \<and> search E (n + 1) q \<noteq> T \<longrightarrow>
            searches w' = n + 2 \<and> slept w' = slept w + 3)
       \<and> (search E n q = T \<and> search E (n + 1) q = T \<and> search E (n + 2) q \<noteq> T \<longrightarrow>
            searches w' = n + 3 \<and> slept w' = slept w + 6)
       \<and> (search E n q = T \<and> search E (n + 1) q = T \<and> search E (n + 2) q = T \<longrightarrow>
            searches w' = n + 3 \<and> slept w' = slept w + 9 \<and> r = Inr None)
       \<and> r \<noteq> Inl TimedOutError)"
    unfolding find_best_yandex_match_def three
    by (auto simp: Let_def split: sum.splits option.splits)
  have l: "build_yandex_like_id ya = Some k \<and> k \<notin> ex \<longrightarrow>
      (case like_yandex_track E ya ex w of ((ok, ex'), w') \<Rightarrow>
        (let n = like_calls w; T = Some TimedOutError; add = users_likes_tracks_add E in
         like_calls w' \<le> n + 3
         \<and> (add n k \<noteq> T \<longrightarrow> like_calls w' = n + 1 \<and> slept w' = slept w \<and> ok = (add n k = None))
         \<and> (add n k = T \<and> add (n + 1) k \<noteq> T \<longrightarrow>
              like_calls w' = n + 2 \<and> slept w' = slept w + 3 \<and> ok = (add (n + 1) k = None))
         \<and> (add n k = T \<and> add (n + 1) k = T \<and> add (n + 2) k \<noteq> T \<longrightarrow>
              like_calls w' = n + 3 \<and> slept w' = slept w + 6 \<and> ok = (add (n + 2) k = None))
         \<and> (add n k = T \<and> add (n + 1) k = T \<and> add (n + 2) k = T \<longrightarrow>
              like_calls w' = n + 3 \<and> slept w' = slept w + 9 \<and> \<not> ok)))"
    unfolding like_yandex_track_def three
    by (auto simp: Let_def split: option.splits)
  show ?thesis using s l by blast
qed

theorem retry_policy_witness:
  "(let E = (quiet_env [])\<lparr>search := (\<lambda>k q. Inl TimedOutError),
                            users_likes_tracks_add := (\<lambda>k i. Some TimedOutError)\<rparr>;
        t = \<lparr>nt_id = ''a'', nt_name = ''song'', nt_artists = [''artist''], nt_album_name = [],
             nt_duration_ms = 0, nt_added_at = None\<rparr>;
        w = world_with Missing;
        ya = found_track ''7'' ''9''
    in search E 0 (search_query t) = Inl TimedOutError
       \<and> search E 1 (search_query t) = Inl TimedOutError
       \<and> search E 2 (search_query t) = Inl TimedOutError
       \<and> (case find_best_yandex_match E t w of (r, w') \<Rightarrow>
            searches w' = 3 \<and> slept w' = 9 \<and> r = Inr None)
       \<and> build_yandex_like_id ya = Some ''7:9''
       \<and> ''7:9'' \<notin> ({} :: string set)
       \<and> users_likes_tracks_add E 0 ''7:9'' = Some TimedOutError
       \<and> (case like_yandex_track E ya {} w of ((ok, ex'), w') \<Rightarrow>
            like_calls w' = 3 \<and> slept w' = 9 \<and> \<not> ok))"
proof -
  define E where "E = (quiet_env [])\<lparr>search := (\<lambda>k q. Inl TimedOutError),
                            users_likes_tracks_add := (\<lambda>k i. Some TimedOutError)\<rparr>"
  define t where "t = \<lparr>nt_id = ''a'', nt_name = ''song'', nt_artists = [''artist''],
      nt_album_name = [], nt_duration_ms = 0, nt_added_at = None\<rparr>"
  define w where "w = world_with Missing"
  define ya where "ya = found_track ''7'' ''9''"
  have s: "\<And>k q. search E k q = Inl TimedOutError"
    and a: "\<And>k i. users_likes_tracks_add E k i = Some TimedOutError"
    by (simp_all add: E_def quiet_env_def)
  have w0: "searches w = 0" "slept w = 0" "like_calls w = 0"
    by (simp_all add: w_def world_with_def)
  have b: "build_yandex_like_id ya = Some ''7:9''"
    unfolding ya_def by code_simp
  show ?thesis
    using retry_policy [where E = E and t = t and w = w and ya = ya and k = "''7:9''" and ex = "{}"]
      s a w0 b
    unfolding E_def [symmetric] t_def [symmetric] w_def [symmetric] ya_def [symmetric] Let_def
    by (auto split: prod.splits)
qed

section \<open>Reconciler: one item, and whole runs\<close>






text \<open>
  Claim C4 says that an already processed item, which is skipped, still has the state saved
  again when the watermark candidate advanced on it. Here the state file holds the id \<open>a\<close>
  and the watermark of 1 January, and the source lists \<open>a\<close> liked again on 2 January: the
  item is fetched and skipped, the candidate moves to 2 January, and the run ends without a
  single save, the file and its watermark of 1 January untouched.
\<close>

theorem skipped_item_not_persisted:
  "(let wm = ''2025-01-01T00:00:00Z'';
        E = quiet_env [liked_track ''a'' ''2025-01-02T00:00:00Z''];
        st = \<lparr>processed_spotify_ids = [''a''], last_spotify_added_at = PStr wm\<rparr>;
        w = world_with (Content (dump st));
        new = fst (fetch_spotify_liked_tracks (fromisoformat E) (saved_tracks E) (Some wm) 50);
        L0 = \<lparr>max_added_dt = parse_spotify_ts (fromisoformat E) (Some wm), processed_ids = [''a''],
              state = st,
              ya_existing_likes = {}, added = 0, skipped_already_processed = 0, not_found = 0\<rparr>
    in map nt_id new = [''a'']
       \<and> (case reconcile E new (L0, w) of (r, L, w') \<Rightarrow>
            r = None \<and> skipped_already_processed L = 1
            \<and> max_added_dt L = Some (2025, 1, 2, 0, 0, 0, 0) \<and> w' = w)
       \<and> main E w = (None, w)
       \<and> saves (snd (main E w)) = 0
       \<and> persisted_watermark (render E) (fromisoformat E) (STATE_FILE (snd (main E w)))
           = Some (2025, 1, 1, 0, 0, 0, 0))"
  by code_simp

text \<open>
  Claim C2 says that after a run in which an item was considered the saved watermark is the
  largest parsed \<open>added_at\<close> of all items considered, skipped ones included. Here the state
  file holds the id \<open>b\<close> and the watermark of 1 January; the source lists \<open>b\<close>, liked
  again on 3 January, and the new \<open>a\<close> of 2 January. Both are considered, \<open>a\<close> is saved
  with the watermark of 2 January, \<open>b\<close> is skipped without a save, and the run ends with
  the watermark of 2 January in the file.
\<close>

theorem watermark_behind_skipped_item:
  "(let E = quiet_env [liked_track ''b'' ''2025-01-03T00:00:00Z'',
                       liked_track ''a'' ''2025-01-02T00:00:00Z''];
        w = world_with (Content (dump \<lparr>processed_spotify_ids = [''b''],
                                        last_spotify_added_at = PStr ''2025-01-01T00:00:00Z''\<rparr>));
        w' = snd (main E w)
    in map nt_id (fst (fetch_spotify_liked_tracks (fromisoformat E) (saved_tracks E)
                        (Some ''2025-01-01T00:00:00Z'') 50))
         = [''a'', ''b'']
       \<and> fst (main E w) = None
       \<and> STATE_FILE w' = Content (dump \<lparr>processed_spotify_ids = [''b'', ''a''],
                                         last_spotify_added_at = PStr ''2025-01-02T00:00:00Z''\<rparr>)
       \<and> persisted_watermark (render E) (fromisoformat E) (STATE_FILE w') = Some (2025, 1, 2, 0, 0, 0, 0)
       \<and> parse_spotify_ts (fromisoformat E) (Some ''2025-01-03T00:00:00Z'') = Some (2025, 1, 3, 0, 0, 0, 0))"
  by code_simp

text \<open>
  Claim C7 says that a non-timeout error raised by the search call never aborts the run. Here
  the first search raises such an error: it leaves \<open>find_best_yandex_match\<close> and
  \<open>main\<close>, nothing is saved, the second item is never looked at, and the exit code is
  \<open>1\<close>. The same error raised by the add-like call is absorbed, and both items end up
  processed.
\<close>

theorem search_error_aborts_run:
  "(let lib = [liked_track ''b'' ''2025-01-02T00:00:00Z'', liked_track ''a'' ''2025-01-01T00:00:00Z''];
        w = world_with Missing;
        E = (quiet_env lib)\<lparr>search := (\<lambda>k q. Inl (OtherError ''NetworkError''))\<rparr>;
        E' = (quiet_env lib)\<lparr>search := (\<lambda>k q. Inr (Results [found_track ''7'' ''9''])),
                              users_likes_tracks_add := (\<lambda>k i. Some (OtherError ''NetworkError''))\<rparr>
    in main E w = (Some (OtherError ''NetworkError''), w\<lparr>searches := 1\<rparr>)
       \<and> run E w = (1, w\<lparr>searches := 1\<rparr>)
       \<and> fst (main E' w) = None
       \<and> persisted_ids (render E') (STATE_FILE (snd (main E' w))) = {''a'', ''b''})"
  by code_simp

section \<open>Running again with nothing new\<close>

text \<open>
  Claim C9. When both clients start, the state file loads, and every item of the source that
  passes the guards has a parsed \<open>added_at\<close> at or below the saved watermark, the Change
  Detector returns nothing and the run returns at once with the world as it found it: no search
  and no add-like call, the state file and the target's likes unchanged.
\<close>

theorem rerun_is_noop:
  assumes "init_spotify_client E = None" and "init_yandex_client E = None"
    and "load_state (render E) (STATE_FILE w) = Inr st"
    and "as_timestamp (last_spotify_added_at st) = Inr wm"
    and "\<forall>item \<in> set (saved_tracks E).
           new_track_of item \<noteq> None \<longrightarrow> at_or_below (fromisoformat E) (parse_spotify_ts (fromisoformat E) wm) item"
  shows "fst (fetch_spotify_liked_tracks (fromisoformat E) (saved_tracks E) wm 50) = [] \<and> main E w = (None, w)"
proof -
  let ?P = "\<lambda>it. \<not> stops_paging (fromisoformat E) (parse_spotify_ts (fromisoformat E) wm) it"
  have "List.map_filter new_track_of (takeWhile ?P (saved_tracks E)) = []"
  proof (rule map_filter_empty)
    fix x assume "x \<in> set (takeWhile ?P (saved_tracks E))"
    then have "x \<in> set (saved_tracks E)" and "?P x"
      by (auto dest: set_takeWhileD)
    then show "new_track_of x = None"
      using assms(5) by (auto simp: stops_paging_def)
  qed
  then have f: "fst (fetch_spotify_liked_tracks (fromisoformat E) (saved_tracks E) wm 50) = []"
    using fetch_loop_eq[of 50 "fromisoformat E" "saved_tracks E"
        "parse_spotify_ts (fromisoformat E) wm" 0 "[]" "[]"]
    by (simp add: fetch_spotify_liked_tracks_def Let_def case_prod_beta)
  show ?thesis
    by (simp add: f main_def assms(1-4))
qed

theorem rerun_is_noop_witness:
  "(let E = quiet_env [liked_track ''a'' ''2025-01-01T00:00:00Z''];
        st = \<lparr>processed_spotify_ids = [''a''],
              last_spotify_added_at = PStr ''2025-01-01T00:00:00Z''\<rparr>;
        w = world_with (Content (dump st));
        wm = Some ''2025-01-01T00:00:00Z''
    in init_spotify_client E = None \<and> init_yandex_client E = None
       \<and> load_state (render E) (STATE_FILE w) = Inr st
       \<and> as_timestamp (last_spotify_added_at st) = Inr wm
       \<and> (\<forall>item \<in> set (saved_tracks E).
             new_track_of item \<noteq> None \<longrightarrow> at_or_below (fromisoformat E) (parse_spotify_ts (fromisoformat E) wm) item)
       \<and> new_track_of (liked_track ''a'' ''2025-01-01T00:00:00Z'') \<noteq> None
       \<and> fst (fetch_spotify_liked_tracks (fromisoformat E) (saved_tracks E) wm 50) = []
       \<and> main E w = (None, w))"
proof -
  define E where "E = quiet_env [liked_track ''a'' ''2025-01-01T00:00:00Z'']"
  define st where "st = \<lparr>processed_spotify_ids = [''a''],
              last_spotify_added_at = PStr ''2025-01-01T00:00:00Z''\<rparr>"
  define w where "w = world_with (Content (dump st))"
  define wm where "wm = Some ''2025-01-01T00:00:00Z''"
  have h1: "init_spotify_client E = None" and h2: "init_yandex_client E = None"
    unfolding E_def by code_simp+
  have h3: "load_state (render E) (STATE_FILE w) = Inr st"
    unfolding E_def w_def st_def by code_simp
  have h4: "as_timestamp (last_spotify_added_at st) = Inr wm"
    by (simp add: st_def wm_def)
  have h5: "\<forall>item \<in> set (saved_tracks E).
             new_track_of item \<noteq> None \<longrightarrow> at_or_below (fromisoformat E) (parse_spotify_ts (fromisoformat E) wm) item"
    unfolding E_def wm_def by code_simp
  have h6: "new_track_of (liked_track ''a'' ''2025-01-01T00:00:00Z'') \<noteq> None"
    by code_simp
  show ?thesis
    using rerun_is_noop [OF h1 h2 h3 h4 h5] h1 h2 h3 h4 h5 h6
    unfolding E_def [symmetric] st_def [symmetric] w_def [symmetric] wm_def [symmetric] Let_def
    by blast
qed

end
